theory Spec2Isabelle
  imports Main
begin

section \<open>Python values and exceptions\<close>

text \<open>
  The notebook \<^verbatim>\<open>Rag-Agentica.ipynb\<close> is a sequence of cells run top to bottom. Its node
  functions (\<^verbatim>\<open>router\<close>, \<^verbatim>\<open>agente_processos\<close>, \<^verbatim>\<open>agente_produtos\<close>, \<^verbatim>\<open>agente_rh\<close>,
  \<^verbatim>\<open>combina\<close>) are embedded as HOL functions that return either the exception the
  Python raises (\<open>Inl\<close>) or the dictionary the node returns (\<open>Inr\<close>).
\<close>

datatype exn =
    NameError string
  | KeyError string
  | TypeError
  | AttributeError string
  | JSONDecodeError
  | ExternalFailure string

text \<open>
  Values that \<^verbatim>\<open>json.loads\<close> can produce and that the nodes put into their update
  dictionaries. A dictionary is an association list with distinct keys; a float is kept
  as its literal.
\<close>

datatype pyval =
    PNone
  | PBool bool
  | PInt int
  | PFloat string
  | PStr string
  | PList "pyval list"
  | PDict "(string \<times> pyval) list"

type_synonym update = "(string \<times> pyval) list"

definition ebind :: "exn + 'a \<Rightarrow> ('a \<Rightarrow> exn + 'b) \<Rightarrow> exn + 'b" where
  "ebind m f = (case m of Inl e \<Rightarrow> Inl e | Inr x \<Rightarrow> f x)"

text \<open>Subscription \<^verbatim>\<open>v[key]\<close> with a string key: only a dict accepts it.\<close>

fun getitem :: "pyval \<Rightarrow> string \<Rightarrow> exn + pyval" where
  "getitem (PDict kv) key = (case map_of kv key of None \<Rightarrow> Inl (KeyError key) | Some v \<Rightarrow> Inr v)"
| "getitem _ key = Inl TypeError"

text \<open>\<^verbatim>\<open>sep.join(xs)\<close>.\<close>

fun join :: "string \<Rightarrow> string list \<Rightarrow> string" where
  "join sep [] = []"
| "join sep [x] = x"
| "join sep (x # y # ys) = x @ sep @ join sep (y # ys)"

section \<open>Prompt templates\<close>

text \<open>
  A \<^verbatim>\<open>PromptTemplate\<close> holds an f-string template. It is kept as the sequence of its
  literal pieces and \<^verbatim>\<open>{name}\<close> placeholders; the escapes \<^verbatim>\<open>{{\<close> and \<^verbatim>\<open>}}\<close> are written
  as the braces they stand for. \<^verbatim>\<open>format\<close> substitutes the keyword arguments and raises
  \<^verbatim>\<open>KeyError\<close> at the first placeholder that has none.
\<close>

datatype seg = Lit string | Var string

record PromptTemplate =
  input_variables :: "string list"
  template :: "seg list"

fun format_segs :: "(string \<times> string) list \<Rightarrow> seg list \<Rightarrow> exn + string" where
  "format_segs kw [] = Inr []"
| "format_segs kw (Lit s # ss) = ebind (format_segs kw ss) (\<lambda>r. Inr (s @ r))"
| "format_segs kw (Var v # ss) =
     (case map_of kw v of
        None \<Rightarrow> Inl (KeyError v)
      | Some x \<Rightarrow> ebind (format_segs kw ss) (\<lambda>r. Inr (x @ r)))"

definition format_prompt :: "PromptTemplate \<Rightarrow> (string \<times> string) list \<Rightarrow> exn + string" where
  "format_prompt p kw = format_segs kw (template p)"

text \<open>The letters of the templates outside ASCII, as Latin-1 code points.\<close>

abbreviation a_grave :: char where "a_grave \<equiv> CHR 0xE0"
abbreviation a_acute :: char where "a_acute \<equiv> CHR 0xE1"
abbreviation a_tilde :: char where "a_tilde \<equiv> CHR 0xE3"
abbreviation c_cedil :: char where "c_cedil \<equiv> CHR 0xE7"
abbreviation e_acute :: char where "e_acute \<equiv> CHR 0xE9"
abbreviation e_circ :: char where "e_circ \<equiv> CHR 0xEA"
abbreviation i_acute :: char where "i_acute \<equiv> CHR 0xED"
abbreviation o_tilde :: char where "o_tilde \<equiv> CHR 0xF5"
abbreviation u_acute :: char where "u_acute \<equiv> CHR 0xFA"

text \<open>The classification prompt of the router (cell "Criando o agente orquestrador simples").\<close>

definition prompt_orquestrador :: PromptTemplate where
  \<open>prompt_orquestrador = \<lparr>input_variables = [''question''], template = [
    Lit (concat [
      ''\<newline>'',
      ''Voc'' @ [e_circ] @ '' '' @ [e_acute] @ '' um agente que recebe uma pergunta e decide quais dos seguintes dom'' @ [i_acute] @ ''nios ela envolve:\<newline>'',
      ''\<newline>'',
      ''Dom'' @ [i_acute] @ ''nios dispon'' @ [i_acute] @ ''veis:\<newline>'',
      ''- produtos: d'' @ [u_acute] @ ''vidas sobre produtos ou servi'' @ [c_cedil] @ ''os, caracter'' @ [i_acute] @ ''sticas, pre'' @ [c_cedil] @ ''os, disponibilidade, cadastro de produtos, etc.\<newline>'',
      ''- processos: d'' @ [u_acute] @ ''vidas sobre processos internos, fluxos, processos operacionais, instru'' @ [c_cedil] @ [o_tilde] @ ''es, etc.\<newline>'',
      ''- rh: d'' @ [u_acute] @ ''vidas sobre folha de pagamento, benef'' @ [i_acute] @ ''cios, f'' @ [e_acute] @ ''rias, hor'' @ [a_acute] @ ''rios, etc.\<newline>'',
      ''\<newline>'',
      ''Dada a pergunta abaixo, retorne uma lista de dom'' @ [i_acute] @ ''nios relevantes no seguinte formato JSON:\<newline>'',
      ''{"dominios": ["produtos", "processos"]}\<newline>'',
      ''\<newline>'',
      ''Pergunta:\<newline>'']),
    Var ''question'',
    Lit (concat [
      ''\<newline>''])]\<rparr>\<close>

text \<open>First assignment to the name prompt_agente_produtos, under the comment "# Prompt Agente de Produtos".\<close>

definition prompt_agente_produtos_assign1 :: PromptTemplate where
  \<open>prompt_agente_produtos_assign1 = \<lparr>input_variables = [''question'', ''context''], template = [
    Lit (concat [
      ''\<newline>'',
      ''Voc'' @ [e_circ] @ '' '' @ [e_acute] @ '' um especialista na documenta'' @ [c_cedil] @ [a_tilde] @ ''o de produtos da empresa. \<newline>'',
      ''Utilize exclusivamente as informa'' @ [c_cedil] @ [o_tilde] @ ''es fornecidas no contexto abaixo para responder '' @ [a_grave] @ '' pergunta.\<newline>'',
      ''\<newline>'',
      ''Contexto:\<newline>'']),
    Var ''context'',
    Lit (concat [
      ''\<newline>'',
      ''\<newline>'',
      ''Pergunta:\<newline>'']),
    Var ''question'',
    Lit (concat [
      ''\<newline>'',
      ''\<newline>'',
      ''Se a resposta n'' @ [a_tilde] @ ''o estiver no contexto, diga "Informa'' @ [c_cedil] @ [a_tilde] @ ''o n'' @ [a_tilde] @ ''o encontrada no contexto.".\<newline>'',
      ''Resposta:\<newline>''])]\<rparr>\<close>

text \<open>Second assignment to the same name prompt_agente_produtos, under the comment "# Prompt Agente de Processos".\<close>

definition prompt_agente_produtos_assign2 :: PromptTemplate where
  \<open>prompt_agente_produtos_assign2 = \<lparr>input_variables = [''question'', ''context''], template = [
    Lit (concat [
      ''\<newline>'',
      ''Voc'' @ [e_circ] @ '' '' @ [e_acute] @ '' um especialista na documenta'' @ [c_cedil] @ [a_tilde] @ ''o de processos da empresa. \<newline>'',
      ''Utilize exclusivamente as informa'' @ [c_cedil] @ [o_tilde] @ ''es fornecidas no contexto abaixo para responder '' @ [a_grave] @ '' pergunta.\<newline>'',
      ''\<newline>'',
      ''Contexto:\<newline>'']),
    Var ''context'',
    Lit (concat [
      ''\<newline>'',
      ''\<newline>'',
      ''Pergunta:\<newline>'']),
    Var ''question'',
    Lit (concat [
      ''\<newline>'',
      ''\<newline>'',
      ''Se a resposta n'' @ [a_tilde] @ ''o estiver no contexto, diga "Informa'' @ [c_cedil] @ [a_tilde] @ ''o n'' @ [a_tilde] @ ''o encontrada no contexto.".\<newline>'',
      ''Resposta:\<newline>''])]\<rparr>\<close>

text \<open>Third assignment to the same name prompt_agente_produtos, under the comment "# Prompt Agente de RH".\<close>

definition prompt_agente_produtos_assign3 :: PromptTemplate where
  \<open>prompt_agente_produtos_assign3 = \<lparr>input_variables = [''question'', ''context''], template = [
    Lit (concat [
      ''\<newline>'',
      ''Voc'' @ [e_circ] @ '' '' @ [e_acute] @ '' um especialista na documenta'' @ [c_cedil] @ [a_tilde] @ ''o de Recursos Humanos da empresa. \<newline>'',
      ''Utilize exclusivamente as informa'' @ [c_cedil] @ [o_tilde] @ ''es fornecidas no contexto abaixo para responder '' @ [a_grave] @ '' pergunta.\<newline>'',
      ''\<newline>'',
      ''Contexto:\<newline>'']),
    Var ''context'',
    Lit (concat [
      ''\<newline>'',
      ''\<newline>'',
      ''Pergunta:\<newline>'']),
    Var ''question'',
    Lit (concat [
      ''\<newline>'',
      ''\<newline>'',
      ''Se a resposta n'' @ [a_tilde] @ ''o estiver no contexto, diga "Informa'' @ [c_cedil] @ [a_tilde] @ ''o n'' @ [a_tilde] @ ''o encontrada no contexto.".\<newline>'',
      ''Resposta:\<newline>''])]\<rparr>\<close>

text \<open>The synthesis prompt of the combiner.\<close>

definition prompt_combina :: PromptTemplate where
  \<open>prompt_combina = \<lparr>input_variables = [''question'', ''respostas''], template = [
    Lit (concat [
      ''\<newline>'',
      ''Voc'' @ [e_circ] @ '' '' @ [e_acute] @ '' um agente que combina respostas.\<newline>'',
      ''\<newline>'',
      ''Dada a pergunta e as respostas dos especialistas, gere uma resposta final, clara e sem repeti'' @ [c_cedil] @ [o_tilde] @ ''es.\<newline>'',
      ''\<newline>'',
      ''### Pergunta:\<newline>'']),
    Var ''question'',
    Lit (concat [
      ''\<newline>'',
      ''\<newline>'',
      ''### Respostas dos especialistas:\<newline>'']),
    Var ''respostas'',
    Lit (concat [
      ''\<newline>'',
      ''\<newline>'',
      ''### Resposta final:\<newline>''])]\<rparr>\<close>

section \<open>Vector stores and retrievers\<close>

record VectorStoreManager =
  diretorio :: string
  persist_directory :: string
  collection_name :: string

text \<open>The methods that the class \<^verbatim>\<open>VectorStoreManager\<close> defines.\<close>

definition VectorStoreManager_methods :: "string list" where
  "VectorStoreManager_methods =
     [''__init__'', ''load_and_process_documents'', ''store_embeddings'', ''get_retriever'']"

text \<open>
  What \<^verbatim>\<open>vectordb.as_retriever(search_kwargs={"k": k})\<close> is built from: the collection and
  the number of passages per search.
\<close>

record Retriever =
  r_persist_directory :: string
  r_collection_name :: string
  r_k :: int

text \<open>
  The method \<^verbatim>\<open>VectorStoreManager.get_retriever(self, k=3)\<close>; \<open>None\<close> is a call that
  leaves \<^verbatim>\<open>k\<close> out.
\<close>

definition get_retriever :: "VectorStoreManager \<Rightarrow> int option \<Rightarrow> Retriever" where
  "get_retriever self k =
     \<lparr>r_persist_directory = persist_directory self,
      r_collection_name = collection_name self,
      r_k = (case k of None \<Rightarrow> 3 | Some n \<Rightarrow> n)\<rparr>"

definition produto_manager :: VectorStoreManager where
  "produto_manager =
     \<lparr>diretorio = ''data/produtos'', persist_directory = ''vectorstores/produtos'',
      collection_name = ''produtos''\<rparr>"

definition processos_manager :: VectorStoreManager where
  "processos_manager =
     \<lparr>diretorio = ''data/processos'', persist_directory = ''vectorstores/processos'',
      collection_name = ''processos''\<rparr>"

definition rh_manager :: VectorStoreManager where
  "rh_manager =
     \<lparr>diretorio = ''data/recursos_humanos'', persist_directory = ''vectorstores/recursos_humanos'',
      collection_name = ''recursos_humanos''\<rparr>"

definition retriever_produto :: Retriever where
  "retriever_produto = get_retriever produto_manager (Some 3)"

definition retriever_processos :: Retriever where
  "retriever_processos = get_retriever processos_manager (Some 3)"

definition retriever_rh :: Retriever where
  "retriever_rh = get_retriever rh_manager (Some 3)"

section \<open>The module namespace\<close>

text \<open>
  A free name in a function body is looked up in the module namespace when the body
  runs. The namespace is the list of the notebook's top-level bindings in the order the
  cells make them; the last binding of a name is the one a lookup finds, and a name
  with no binding raises \<^verbatim>\<open>NameError\<close>.
\<close>

datatype pyobj =
    Template PromptTemplate
  | RetrieverObj Retriever
  | ManagerObj VectorStoreManager
  | ClassObj "string list"
  | ChatModel string
  | Callable0 pyobj
  | Opaque

type_synonym namespace = "(string \<times> pyobj) list"

definition resolve :: "namespace \<Rightarrow> string \<Rightarrow> exn + pyobj" where
  "resolve ns name = (case map_of (rev ns) name of None \<Rightarrow> Inl (NameError name) | Some v \<Rightarrow> Inr v)"

definition notebook_globals :: namespace where
  "notebook_globals =
     [(''os'', Opaque), (''Chroma'', Opaque), (''PyPDFDirectoryLoader'', Opaque),
      (''RecursiveCharacterTextSplitter'', Opaque), (''MistralAIEmbeddings'', Opaque),
      (''ChatGroq'', Opaque), (''RetrievalQA'', Opaque), (''PromptTemplate'', Opaque),
      (''TypedDict'', Opaque), (''List'', Opaque), (''Dict'', Opaque), (''Document'', Opaque),
      (''START'', Opaque), (''StateGraph'', Opaque), (''END'', Opaque),
      (''HumanMessage'', Opaque), (''load_dotenv'', Opaque),
      (''VectorStoreManager'', ClassObj VectorStoreManager_methods),
      (''produto_manager'', ManagerObj produto_manager),
      (''processos_manager'', ManagerObj processos_manager),
      (''rh_manager'', ManagerObj rh_manager),
      (''retriever_produto'', RetrieverObj retriever_produto),
      (''retriever_processos'', RetrieverObj retriever_processos),
      (''retriever_rh'', RetrieverObj retriever_rh),
      (''llm'', ChatModel ''llama3-70b-8192''),
      (''GraphState'', Opaque),
      (''prompt_orquestrador'', Template prompt_orquestrador),
      (''json'', Opaque),
      (''router'', Opaque),
      (''prompt_agente_produtos'', Template prompt_agente_produtos_assign1),
      (''prompt_agente_produtos'', Template prompt_agente_produtos_assign2),
      (''prompt_agente_produtos'', Template prompt_agente_produtos_assign3),
      (''agente_processos'', Opaque), (''agente_produtos'', Opaque), (''agente_rh'', Opaque),
      (''prompt_combina'', Template prompt_combina),
      (''combina'', Opaque),
      (''graph'', Opaque), (''graph_compilado'', Opaque), (''Image'', Opaque),
      (''display'', Opaque),
      (''pergunta'', Opaque), (''estado_inicial'', Opaque)]"

text \<open>Calling an object without arguments, and the attributes the nodes use.\<close>

fun call0 :: "pyobj \<Rightarrow> exn + pyobj" where
  "call0 (Callable0 r) = Inr r"
| "call0 _ = Inl TypeError"

fun as_retriever :: "pyobj \<Rightarrow> exn + Retriever" where
  "as_retriever (RetrieverObj r) = Inr r"
| "as_retriever _ = Inl (AttributeError ''get_relevant_documents'')"

fun as_template :: "pyobj \<Rightarrow> exn + PromptTemplate" where
  "as_template (Template t) = Inr t"
| "as_template _ = Inl (AttributeError ''format'')"

section \<open>External services\<close>

text \<open>
  The language model, the vector search and \<^verbatim>\<open>json.loads\<close> are libraries outside the
  notebook; the nodes take them as an environment. Each may raise.
\<close>

record env =
  llm_invoke :: "string \<Rightarrow> string \<Rightarrow> exn + string"
  get_relevant_documents :: "Retriever \<Rightarrow> string \<Rightarrow> exn + string list"
  json_loads :: "string \<Rightarrow> exn + pyval"

text \<open>
  \<^verbatim>\<open>llm.invoke([HumanMessage(content=prompt)]).content\<close>: the text the chat model bound to
  \<^verbatim>\<open>llm\<close> generates for the prompt.
\<close>

fun invoke :: "env \<Rightarrow> pyobj \<Rightarrow> string \<Rightarrow> exn + string" where
  "invoke e (ChatModel m) prompt = llm_invoke e m prompt"
| "invoke e _ prompt = Inl (AttributeError ''invoke'')"

section \<open>The run state\<close>

text \<open>
  \<^verbatim>\<open>GraphState\<close> is a \<^verbatim>\<open>TypedDict\<close> with the keys \<^verbatim>\<open>question\<close>, \<^verbatim>\<open>respostas\<close> and
  \<^verbatim>\<open>answer\<close>. At run time it is a dict, so a key may be absent (\<open>None\<close>):
  \<^verbatim>\<open>state["k"]\<close> then raises \<^verbatim>\<open>KeyError\<close> and \<^verbatim>\<open>state.get("k", d)\<close> gives \<^verbatim>\<open>d\<close>.
\<close>

record GraphState =
  question :: "string option"
  respostas :: "string list option"
  answer :: "string option"

definition GraphState_fields :: "string list" where
  "GraphState_fields = [''question'', ''respostas'', ''answer'']"

definition state_question :: "GraphState \<Rightarrow> exn + string" where
  "state_question state =
     (case question state of None \<Rightarrow> Inl (KeyError ''question'') | Some q \<Rightarrow> Inr q)"

definition state_respostas :: "GraphState \<Rightarrow> exn + string list" where
  "state_respostas state =
     (case respostas state of None \<Rightarrow> Inl (KeyError ''respostas'') | Some r \<Rightarrow> Inr r)"

definition state_get_respostas :: "GraphState \<Rightarrow> string list \<Rightarrow> string list" where
  "state_get_respostas state d = (case respostas state of None \<Rightarrow> d | Some r \<Rightarrow> r)"

section \<open>The router\<close>

text \<open>
  \<^verbatim>\<open>router\<close> renders the classification prompt, invokes the model and parses its text.
  Only \<^verbatim>\<open>json.JSONDecodeError\<close> is caught; the fallback is \<^verbatim>\<open>{"dominios": []}\<close>. The value
  is printed, then subscripted with \<^verbatim>\<open>"dominios"\<close>. The first component of the result
  is what was printed, the second the exception or the returned dict.
\<close>

definition router :: "namespace \<Rightarrow> env \<Rightarrow> GraphState \<Rightarrow> pyval list \<times> (exn + update)" where
  "router ns e state =
     (case ebind (resolve ns ''prompt_orquestrador'') (\<lambda>p.
           ebind (as_template p) (\<lambda>t.
           ebind (state_question state) (\<lambda>q.
           ebind (format_prompt t [(''question'', q)]) (\<lambda>prompt.
           ebind (resolve ns ''llm'') (\<lambda>l.
           ebind (invoke e l prompt) (\<lambda>content.
           (case json_loads e content of
              Inl err \<Rightarrow> if err = JSONDecodeError then Inr (PDict [(''dominios'', PList [])])
                         else Inl err
            | Inr v \<Rightarrow> Inr v))))))) of
        Inl err \<Rightarrow> ([], Inl err)
      | Inr areas \<Rightarrow> ([areas], ebind (getitem areas ''dominios'') (\<lambda>d. Inr [(''routes'', d)])))"

section \<open>The specialist agents\<close>

text \<open>
  The three functions have the same body: each calls the free name \<^verbatim>\<open>get_retriever\<close>,
  joins the passages with a blank line, renders the template bound to the name
  \<^verbatim>\<open>prompt_agente_produtos\<close>, invokes the model and returns
  \<^verbatim>\<open>state.get("respostas", [])\<close> extended by the model's text.
\<close>

definition agente_processos :: "namespace \<Rightarrow> env \<Rightarrow> GraphState \<Rightarrow> exn + update" where
  "agente_processos ns e state =
     ebind (resolve ns ''get_retriever'') (\<lambda>g.
     ebind (call0 g) (\<lambda>r.
     ebind (as_retriever r) (\<lambda>retriever.
     ebind (state_question state) (\<lambda>q.
     ebind (get_relevant_documents e retriever q) (\<lambda>docs.
     let docs_content = join ''\<newline>\<newline>'' docs in
     ebind (resolve ns ''prompt_agente_produtos'') (\<lambda>p.
     ebind (as_template p) (\<lambda>t.
     ebind (state_question state) (\<lambda>q'.
     ebind (format_prompt t [(''question'', q'), (''context'', docs_content)]) (\<lambda>prompt_value.
     ebind (resolve ns ''llm'') (\<lambda>l.
     ebind (invoke e l prompt_value) (\<lambda>response.
     Inr [(''respostas'', PList (map PStr (state_get_respostas state [] @ [response])))])))))))))))"

definition agente_produtos :: "namespace \<Rightarrow> env \<Rightarrow> GraphState \<Rightarrow> exn + update" where
  "agente_produtos ns e state =
     ebind (resolve ns ''get_retriever'') (\<lambda>g.
     ebind (call0 g) (\<lambda>r.
     ebind (as_retriever r) (\<lambda>retriever.
     ebind (state_question state) (\<lambda>q.
     ebind (get_relevant_documents e retriever q) (\<lambda>docs.
     let docs_content = join ''\<newline>\<newline>'' docs in
     ebind (resolve ns ''prompt_agente_produtos'') (\<lambda>p.
     ebind (as_template p) (\<lambda>t.
     ebind (state_question state) (\<lambda>q'.
     ebind (format_prompt t [(''question'', q'), (''context'', docs_content)]) (\<lambda>prompt_value.
     ebind (resolve ns ''llm'') (\<lambda>l.
     ebind (invoke e l prompt_value) (\<lambda>response.
     Inr [(''respostas'', PList (map PStr (state_get_respostas state [] @ [response])))])))))))))))"

definition agente_rh :: "namespace \<Rightarrow> env \<Rightarrow> GraphState \<Rightarrow> exn + update" where
  "agente_rh ns e state =
     ebind (resolve ns ''get_retriever'') (\<lambda>g.
     ebind (call0 g) (\<lambda>r.
     ebind (as_retriever r) (\<lambda>retriever.
     ebind (state_question state) (\<lambda>q.
     ebind (get_relevant_documents e retriever q) (\<lambda>docs.
     let docs_content = join ''\<newline>\<newline>'' docs in
     ebind (resolve ns ''prompt_agente_produtos'') (\<lambda>p.
     ebind (as_template p) (\<lambda>t.
     ebind (state_question state) (\<lambda>q'.
     ebind (format_prompt t [(''question'', q'), (''context'', docs_content)]) (\<lambda>prompt_value.
     ebind (resolve ns ''llm'') (\<lambda>l.
     ebind (invoke e l prompt_value) (\<lambda>response.
     Inr [(''respostas'', PList (map PStr (state_get_respostas state [] @ [response])))])))))))))))"

section \<open>The combiner\<close>

definition combina :: "namespace \<Rightarrow> env \<Rightarrow> GraphState \<Rightarrow> exn + update" where
  "combina ns e state =
     ebind (state_respostas state) (\<lambda>rs.
     let respostas_texto = join ''\<newline>\<newline>'' rs in
     ebind (resolve ns ''prompt_combina'') (\<lambda>p.
     ebind (as_template p) (\<lambda>t.
     ebind (state_question state) (\<lambda>q.
     ebind (format_prompt t [(''question'', q), (''respostas'', respostas_texto)]) (\<lambda>prompt.
     ebind (resolve ns ''llm'') (\<lambda>l.
     ebind (invoke e l prompt) (\<lambda>response.
     Inr [(''answer'', PStr response)])))))))"

section \<open>The graph\<close>

text \<open>
  What the notebook declares to the graph library: the schema, the nodes under their
  names, the plain edges, and the conditional edges after \<^verbatim>\<open>router\<close>, given by the
  selector \<^verbatim>\<open>lambda x: x["routes"]\<close> and the map from its results to node names.
\<close>

definition START :: string where "START = ''__start__''"
definition END :: string where "END = ''__end__''"

definition graph_nodes :: "(string \<times> (namespace \<Rightarrow> env \<Rightarrow> GraphState \<Rightarrow> exn + update)) list" where
  "graph_nodes =
     [(''router'', \<lambda>ns e state. snd (router ns e state)),
      (''produtos'', agente_produtos),
      (''processos'', agente_processos),
      (''rh'', agente_rh),
      (''combina'', combina)]"

definition graph_edges :: "(string \<times> string) list" where
  "graph_edges =
     [(START, ''router''),
      (''produtos'', ''combina''),
      (''processos'', ''combina''),
      (''rh'', ''combina''),
      (''combina'', END)]"

definition route_selector :: "update \<Rightarrow> exn + pyval" where
  "route_selector x = (case map_of x ''routes'' of None \<Rightarrow> Inl (KeyError ''routes'') | Some v \<Rightarrow> Inr v)"

definition path_map :: "(string \<times> string) list" where
  "path_map = [(''produtos'', ''produtos''), (''processos'', ''processos''), (''rh'', ''rh'')]"

text \<open>The closed set of domains: the keys of the conditional edges.\<close>

definition domains :: "string list" where
  "domains = map fst path_map"

section \<open>Stand-ins for the external services\<close>

text \<open>
  Deterministic stand-ins used to run the nodes on concrete inputs. The model answers
  every prompt with one fixed text. The parser knows the parse of the listed texts, as
  \<^verbatim>\<open>json.loads\<close> gives it, and raises \<^verbatim>\<open>JSONDecodeError\<close> on any other text. The search
  returns the name of the collection it was run on as its only passage.
\<close>

definition stub_env :: "string \<Rightarrow> (string \<times> pyval) list \<Rightarrow> env" where
  "stub_env content parses =
     \<lparr>llm_invoke = (\<lambda>m prompt. Inr content),
      get_relevant_documents = (\<lambda>r q. Inr [r_collection_name r]),
      json_loads = (\<lambda>s. case map_of parses s of None \<Rightarrow> Inl JSONDecodeError | Some v \<Rightarrow> Inr v)\<rparr>"

text \<open>A model that answers with the prompt it was given.\<close>

definition echo_env :: env where
  "echo_env =
     \<lparr>llm_invoke = (\<lambda>m prompt. Inr prompt),
      get_relevant_documents = (\<lambda>r q. Inr [r_collection_name r]),
      json_loads = (\<lambda>s. Inl JSONDecodeError)\<rparr>"

text \<open>The initial state of the notebook's last cell, for a given question.\<close>

definition estado_inicial :: "string \<Rightarrow> GraphState" where
  "estado_inicial pergunta = \<lparr>question = Some pergunta, respostas = Some [], answer = Some ''''\<rparr>"

text \<open>The question of the notebook's last cell.\<close>

definition pergunta :: string where
  "pergunta = ''Qual a metodologia de desenvolvimento usada pela coordenadoria de informatica?''"

text \<open>Model answers used below, with their parses.\<close>

definition content_rh :: string where
  \<open>content_rh = ''{"dominios": ["rh"]}''\<close>

definition content_financeiro :: string where
  \<open>content_financeiro = ''{"dominios": ["financeiro", "rh"]}''\<close>

definition content_bare_list :: string where
  \<open>content_bare_list = ''["produtos", "processos"]''\<close>

definition content_other_key :: string where
  \<open>content_other_key = ''{"domains": ["rh"]}''\<close>

definition content_prose :: string where
  \<open>content_prose = ''A pergunta envolve o dominio rh.''\<close>

definition known_parses :: "(string \<times> pyval) list" where
  "known_parses =
     [(content_rh, PDict [(''dominios'', PList [PStr ''rh''])]),
      (content_financeiro, PDict [(''dominios'', PList [PStr ''financeiro'', PStr ''rh''])]),
      (content_bare_list, PList [PStr ''produtos'', PStr ''processos'']),
      (content_other_key, PDict [(''domains'', PList [PStr ''rh''])])]"

text \<open>The identifiers in a value returned under \<^verbatim>\<open>routes\<close>.\<close>

fun route_ids :: "pyval \<Rightarrow> string list" where
  "route_ids (PList vs) = concat (map (\<lambda>v. case v of PStr s \<Rightarrow> [s] | _ \<Rightarrow> []) vs)"
| "route_ids _ = []"

text \<open>
  The notebook's namespace with the one missing name bound in addition: \<^verbatim>\<open>get_retriever\<close>
  as a function of no arguments that returns the retriever of the produtos collection.
  It shows what a specialist does once its first line succeeds.
\<close>

definition globals_with_get_retriever :: namespace where
  "globals_with_get_retriever =
     notebook_globals @ [(''get_retriever'', Callable0 (RetrieverObj retriever_produto))]"

section \<open>A run of the graph\<close>

text \<open>
  \<^verbatim>\<open>graph_compilado.invoke(estado_inicial)\<close> walks the declared graph in steps. The entry
  edge starts \<^verbatim>\<open>router\<close>. After it, the selector is applied to the router's dict and
  every route is looked up in the path map; the nodes found are the next step. In a step
  each started node is called on the state of the step; a node that raises ends the run
  with its exception. The dicts the nodes return are then written to the state: a key
  that \<^verbatim>\<open>GraphState\<close> declares is overwritten, any other key is not stored, and two
  nodes of one step writing the same key are an error of the run. The targets of the
  plain edges that leave the step's nodes are the next step; \<^verbatim>\<open>END\<close> starts nothing,
  and the run ends with the state it has when no node is left to start.
\<close>

datatype run_exn =
    Raised exn
  | UnknownRoute pyval
  | InvalidUpdate

fun collect :: "('e + 'a) list \<Rightarrow> 'e + 'a list" where
  "collect [] = Inr []"
| "collect (Inl err # rs) = Inl err"
| "collect (Inr x # rs) = (case collect rs of Inl err \<Rightarrow> Inl err | Inr xs \<Rightarrow> Inr (x # xs))"

text \<open>The node a route leads to: \<^verbatim>\<open>path_map[route]\<close>.\<close>

fun route_target :: "pyval \<Rightarrow> run_exn + string" where
  "route_target (PStr s) =
     (case map_of path_map s of None \<Rightarrow> Inl (UnknownRoute (PStr s)) | Some n \<Rightarrow> Inr n)"
| "route_target v = Inl (UnknownRoute v)"

text \<open>The nodes the conditional edges start: a list gives its routes, any other value is one route.\<close>

fun targets :: "pyval \<Rightarrow> run_exn + string list" where
  "targets (PList rs) =
     (case collect (map route_target rs) of Inl err \<Rightarrow> Inl err | Inr ns \<Rightarrow> Inr (remdups ns))"
| "targets r = (case route_target r of Inl err \<Rightarrow> Inl err | Inr n \<Rightarrow> Inr [n])"

definition successors :: "string \<Rightarrow> string list" where
  "successors n = map snd (filter (\<lambda>edge. fst edge = n) graph_edges)"

definition next_nodes :: "string list \<Rightarrow> string list" where
  "next_nodes active = filter (\<lambda>n. n \<noteq> END) (remdups (concat (map successors active)))"

text \<open>The strings of a list value.\<close>

fun str_items :: "pyval \<Rightarrow> string list" where
  "str_items (PList vs) = concat (map (\<lambda>v. case v of PStr s \<Rightarrow> [s] | _ \<Rightarrow> []) vs)"
| "str_items _ = []"

text \<open>
  Writing one entry of a node's dict to the state. The nodes write a list of strings
  under \<^verbatim>\<open>respostas\<close> and a string under \<^verbatim>\<open>answer\<close>.
\<close>

definition write_field :: "string \<times> pyval \<Rightarrow> GraphState \<Rightarrow> GraphState" where
  "write_field kv state =
     (if fst kv = ''question'' then
        (case snd kv of PStr s \<Rightarrow> state\<lparr>question := Some s\<rparr> | _ \<Rightarrow> state)
      else if fst kv = ''respostas'' then state\<lparr>respostas := Some (str_items (snd kv))\<rparr>
      else if fst kv = ''answer'' then
        (case snd kv of PStr s \<Rightarrow> state\<lparr>answer := Some s\<rparr> | _ \<Rightarrow> state)
      else state)"

definition declared :: "update \<Rightarrow> update" where
  "declared upd = filter (\<lambda>kv. fst kv \<in> set GraphState_fields) upd"

definition run_node :: "namespace \<Rightarrow> env \<Rightarrow> GraphState \<Rightarrow> string \<Rightarrow> run_exn + update" where
  "run_node ns e state n =
     (case map_of graph_nodes n of
        None \<Rightarrow> Inl (Raised (KeyError n))
      | Some node \<Rightarrow> (case node ns e state of Inl err \<Rightarrow> Inl (Raised err) | Inr upd \<Rightarrow> Inr upd))"

definition superstep :: "namespace \<Rightarrow> env \<Rightarrow> string list \<Rightarrow> GraphState \<Rightarrow> run_exn + GraphState" where
  "superstep ns e active state =
     (case collect (map (run_node ns e state) active) of
        Inl err \<Rightarrow> Inl err
      | Inr upds \<Rightarrow>
          (let writes = concat (map declared upds) in
           if distinct (map fst writes) then Inr (fold write_field writes state)
           else Inl InvalidUpdate))"

text \<open>
  The steps after the router. The first argument bounds the number of steps; \<open>None\<close> is
  a run that has not ended within the bound. The result is the list of the nodes
  started, in order, and the exception or the final state.
\<close>

fun supersteps ::
  "nat \<Rightarrow> namespace \<Rightarrow> env \<Rightarrow> string list \<Rightarrow> string list \<Rightarrow> GraphState \<Rightarrow>
     (string list \<times> (run_exn + GraphState)) option" where
  "supersteps fuel ns e started [] state = Some (started, Inr state)"
| "supersteps 0 ns e started (n # active) state = None"
| "supersteps (Suc fuel) ns e started (n # active) state =
     (case superstep ns e (n # active) state of
        Inl err \<Rightarrow> Some (started @ n # active, Inl err)
      | Inr state' \<Rightarrow>
          supersteps fuel ns e (started @ n # active) (next_nodes (n # active)) state')"

text \<open>The whole run: the router, the conditional edges, then the steps along the plain edges.\<close>

definition run_graph ::
  "namespace \<Rightarrow> env \<Rightarrow> GraphState \<Rightarrow> (string list \<times> (run_exn + GraphState)) option" where
  "run_graph ns e state =
     (case run_node ns e state ''router'' of
        Inl err \<Rightarrow> Some ([''router''], Inl err)
      | Inr upd \<Rightarrow>
          (case route_selector upd of
             Inl err \<Rightarrow> Some ([''router''], Inl (Raised err))
           | Inr routes \<Rightarrow>
               (case targets routes of
                  Inl err \<Rightarrow> Some ([''router''], Inl err)
                | Inr active \<Rightarrow>
                    supersteps (length graph_nodes) ns e [''router''] active
                      (fold write_field (declared upd) state))))"

text \<open>A model answer that names no domain, with its parse.\<close>

definition content_none :: string where
  \<open>content_none = ''{"dominios": []}''\<close>

definition parses_none :: "(string \<times> pyval) list" where
  "parses_none = [(content_none, PDict [(''dominios'', PList [])])]"

section \<open>Basic facts\<close>

lemma ebind_Inl [simp]: "ebind (Inl err) f = Inl err"
  by (simp add: ebind_def)

lemma ebind_Inr [simp]: "ebind (Inr x) f = f x"
  by (simp add: ebind_def)

lemmas contents_defs =
  known_parses_def content_rh_def content_financeiro_def content_bare_list_def
  content_other_key_def content_prose_def

subsection \<open>Name resolution in the notebook's namespace\<close>

lemma resolve_get_retriever:
  "resolve notebook_globals ''get_retriever'' = Inl (NameError ''get_retriever'')"
  by (simp add: resolve_def notebook_globals_def)

lemma resolve_prompt_agente_produtos:
  "resolve notebook_globals ''prompt_agente_produtos'' =
     Inr (Template prompt_agente_produtos_assign3)"
  by (simp add: resolve_def notebook_globals_def)

lemma resolve_llm: "resolve notebook_globals ''llm'' = Inr (ChatModel ''llama3-70b-8192'')"
  by (simp add: resolve_def notebook_globals_def)

lemma resolve_prompt_orquestrador:
  "resolve notebook_globals ''prompt_orquestrador'' = Inr (Template prompt_orquestrador)"
  by (simp add: resolve_def notebook_globals_def)

lemma resolve_prompt_combina:
  "resolve notebook_globals ''prompt_combina'' = Inr (Template prompt_combina)"
  by (simp add: resolve_def notebook_globals_def)

subsection \<open>The specialists\<close>

text \<open>The three specialists are one and the same function of namespace, services and state.\<close>

lemma specialists_identical:
  "agente_produtos ns e state = agente_rh ns e state"
  "agente_processos ns e state = agente_rh ns e state"
  by (simp_all add: agente_produtos_def agente_processos_def agente_rh_def)

lemma agente_processos_NameError:
  "agente_processos notebook_globals e state = Inl (NameError ''get_retriever'')"
  by (simp add: agente_processos_def resolve_get_retriever)

lemma agente_produtos_NameError:
  "agente_produtos notebook_globals e state = Inl (NameError ''get_retriever'')"
  by (simp add: agente_produtos_def resolve_get_retriever)

lemma agente_rh_NameError:
  "agente_rh notebook_globals e state = Inl (NameError ''get_retriever'')"
  by (simp add: agente_rh_def resolve_get_retriever)

subsection \<open>The router after the model has answered\<close>

lemma router_after_model:
  assumes "question state = Some q"
    and "ebind (format_prompt prompt_orquestrador [(''question'', q)])
           (llm_invoke e ''llama3-70b-8192'') = Inr content"
  shows "router notebook_globals e state =
     (case (case json_loads e content of
              Inl err \<Rightarrow> if err = JSONDecodeError then Inr (PDict [(''dominios'', PList [])])
                         else Inl err
            | Inr v \<Rightarrow> Inr v) of
        Inl err \<Rightarrow> ([], Inl err)
      | Inr areas \<Rightarrow> ([areas], ebind (getitem areas ''dominios'') (\<lambda>d. Inr [(''routes'', d)])))"
proof -
  from assms(2) obtain prompt where
    p: "format_prompt prompt_orquestrador [(''question'', q)] = Inr prompt"
    and c: "llm_invoke e ''llama3-70b-8192'' prompt = Inr content"
    by (cases "format_prompt prompt_orquestrador [(''question'', q)]") simp_all
  show ?thesis
    using assms(1) p c
    by (simp add: router_def resolve_prompt_orquestrador resolve_llm state_question_def)
qed

lemma format_orquestrador_ok:
  "\<exists>prompt. format_prompt prompt_orquestrador [(''question'', q)] = Inr prompt"
  by (simp add: format_prompt_def prompt_orquestrador_def)

lemma stub_model_answer:
  "ebind (format_prompt prompt_orquestrador [(''question'', q)])
     (llm_invoke (stub_env content parses) ''llama3-70b-8192'') = Inr content"
proof -
  obtain prompt where "format_prompt prompt_orquestrador [(''question'', q)] = Inr prompt"
    using format_orquestrador_ok by blast
  then show ?thesis by (simp add: stub_env_def)
qed

lemma router_stub:
  "router notebook_globals (stub_env content parses) (estado_inicial q) =
     (case map_of parses content of
        None \<Rightarrow> ([PDict [(''dominios'', PList [])]], Inr [(''routes'', PList [])])
      | Some areas \<Rightarrow> ([areas], ebind (getitem areas ''dominios'') (\<lambda>d. Inr [(''routes'', d)])))"
proof -
  have q: "question (estado_inicial q) = Some q"
    by (simp add: estado_inicial_def)
  have j: "json_loads (stub_env content parses) content =
      (case map_of parses content of None \<Rightarrow> Inl JSONDecodeError | Some v \<Rightarrow> Inr v)"
    by (simp add: stub_env_def)
  show ?thesis
    by (simp add: router_after_model [OF q stub_model_answer] j split: option.splits)
qed

text \<open>
  The path the \<^verbatim>\<open>except\<close> clause covers: when \<^verbatim>\<open>json.loads\<close> raises \<^verbatim>\<open>JSONDecodeError\<close>,
  the router prints the fallback dict and returns an empty list of routes.
\<close>

lemma router_fallback_on_JSONDecodeError:
  assumes "question state = Some q"
    and "ebind (format_prompt prompt_orquestrador [(''question'', q)])
           (llm_invoke e ''llama3-70b-8192'') = Inr content"
    and "json_loads e content = Inl JSONDecodeError"
  shows "router notebook_globals e state =
     ([PDict [(''dominios'', PList [])]], Inr [(''routes'', PList [])])"
  by (simp add: router_after_model [OF assms(1,2)] assms(3))

lemma router_fallback_on_prose:
  "router notebook_globals (stub_env content_prose known_parses) (estado_inicial pergunta) =
     ([PDict [(''dominios'', PList [])]], Inr [(''routes'', PList [])])"
  by (simp add: router_stub contents_defs)

subsection \<open>The combiner after the model has answered\<close>

lemma combina_after_model:
  assumes "question state = Some q"
    and "respostas state = Some rs"
    and "ebind (format_prompt prompt_combina
             [(''question'', q), (''respostas'', join ''\<newline>\<newline>'' rs)])
           (llm_invoke e ''llama3-70b-8192'') = Inr text"
  shows "combina notebook_globals e state = Inr [(''answer'', PStr text)]"
proof -
  from assms(3) obtain prompt where
    p: "format_prompt prompt_combina
          [(''question'', q), (''respostas'', join ''\<newline>\<newline>'' rs)] = Inr prompt"
    and c: "llm_invoke e ''llama3-70b-8192'' prompt = Inr text"
    by (cases "format_prompt prompt_combina
          [(''question'', q), (''respostas'', join ''\<newline>\<newline>'' rs)]") simp_all
  show ?thesis
    using assms(1,2) p c
    by (simp add: combina_def resolve_prompt_combina resolve_llm state_question_def
        state_respostas_def)
qed

lemma format_combina_ok:
  "\<exists>prompt. format_prompt prompt_combina [(''question'', q), (''respostas'', r)] = Inr prompt"
  by (simp add: format_prompt_def prompt_combina_def)

lemma stub_combina_answer:
  "ebind (format_prompt prompt_combina [(''question'', q), (''respostas'', r)])
     (llm_invoke (stub_env content parses) ''llama3-70b-8192'') = Inr content"
proof -
  obtain prompt where
    "format_prompt prompt_combina [(''question'', q), (''respostas'', r)] = Inr prompt"
    using format_combina_ok by blast
  then show ?thesis by (simp add: stub_env_def)
qed

subsection \<open>The run after the router\<close>

lemma run_node_router:
  "run_node ns e state ''router'' =
     (case snd (router ns e state) of Inl err \<Rightarrow> Inl (Raised err) | Inr upd \<Rightarrow> Inr upd)"
  by (simp add: run_node_def graph_nodes_def)

lemma run_graph_after_router:
  assumes "snd (router ns e state) = Inr upd"
  shows "run_graph ns e state =
     (case route_selector upd of
        Inl err \<Rightarrow> Some ([''router''], Inl (Raised err))
      | Inr routes \<Rightarrow>
          (case targets routes of
             Inl err \<Rightarrow> Some ([''router''], Inl err)
           | Inr active \<Rightarrow>
               supersteps (length graph_nodes) ns e [''router''] active
                 (fold write_field (declared upd) state)))"
  using assms by (simp add: run_graph_def run_node_router)

lemma routes_not_declared: "declared [(''routes'', v)] = []"
  by (simp add: declared_def GraphState_fields_def)

text \<open>No plain edge leaves \<^verbatim>\<open>router\<close>, and no route leads to \<^verbatim>\<open>combina\<close>.\<close>

lemma no_way_from_router_to_combina:
  "successors ''router'' = []"
  "''combina'' \<notin> set (map snd path_map)"
  by (simp_all add: successors_def graph_edges_def START_def END_def path_map_def)

section \<open>The claims\<close>

subsection \<open>C1: each specialist and its own template\<close>

text \<open>
  C1 says that the specialist of each domain renders that domain's own grounding
  template. In the notebook the three templates are assigned, one after the other, to
  the single name \<^verbatim>\<open>prompt_agente_produtos\<close>, which therefore holds the third one (the
  text for Recursos Humanos); \<^verbatim>\<open>prompt_agente_processos\<close> and \<^verbatim>\<open>prompt_agente_rh\<close> are
  never bound. With \<^verbatim>\<open>get_retriever\<close> bound so that the first line succeeds, the produtos
  specialist sends the model the rendering of the third template, which differs from
  the rendering of the template written for produtos.
\<close>

theorem produtos_specialist_renders_rh_template:
  "resolve notebook_globals ''prompt_agente_produtos'' =
     Inr (Template prompt_agente_produtos_assign3)
   \<and> resolve notebook_globals ''prompt_agente_processos'' =
       Inl (NameError ''prompt_agente_processos'')
   \<and> resolve notebook_globals ''prompt_agente_rh'' = Inl (NameError ''prompt_agente_rh'')
   \<and> agente_produtos globals_with_get_retriever echo_env (estado_inicial pergunta) =
       ebind (format_prompt prompt_agente_produtos_assign3
                [(''question'', pergunta), (''context'', ''produtos'')])
         (\<lambda>text. Inr [(''respostas'', PList [PStr text])])
   \<and> agente_produtos globals_with_get_retriever echo_env (estado_inicial pergunta) \<noteq>
       ebind (format_prompt prompt_agente_produtos_assign1
                [(''question'', pergunta), (''context'', ''produtos'')])
         (\<lambda>text. Inr [(''respostas'', PList [PStr text])])"
proof -
  have g: "resolve globals_with_get_retriever ''get_retriever'' =
      Inr (Callable0 (RetrieverObj retriever_produto))"
    and p: "resolve globals_with_get_retriever ''prompt_agente_produtos'' =
      Inr (Template prompt_agente_produtos_assign3)"
    and l: "resolve globals_with_get_retriever ''llm'' = Inr (ChatModel ''llama3-70b-8192'')"
    by (simp_all add: globals_with_get_retriever_def resolve_def notebook_globals_def)
  have c: "r_collection_name retriever_produto = ''produtos''"
    by (simp add: retriever_produto_def get_retriever_def produto_manager_def)
  have run: "agente_produtos globals_with_get_retriever echo_env (estado_inicial pergunta) =
       ebind (format_prompt prompt_agente_produtos_assign3
                [(''question'', pergunta), (''context'', ''produtos'')])
         (\<lambda>text. Inr [(''respostas'', PList [PStr text])])"
    by (simp add: agente_produtos_def g p l c echo_env_def estado_inicial_def
        state_question_def state_get_respostas_def ebind_def split: sum.splits)
  have neq: "format_prompt prompt_agente_produtos_assign3
                [(''question'', pergunta), (''context'', ''produtos'')] \<noteq>
             format_prompt prompt_agente_produtos_assign1
                [(''question'', pergunta), (''context'', ''produtos'')]"
    by (simp add: format_prompt_def prompt_agente_produtos_assign3_def
        prompt_agente_produtos_assign1_def)
  have ok: "\<exists>t. format_prompt prompt_agente_produtos_assign3
                [(''question'', pergunta), (''context'', ''produtos'')] = Inr t"
      "\<exists>t. format_prompt prompt_agente_produtos_assign1
                [(''question'', pergunta), (''context'', ''produtos'')] = Inr t"
    by (simp_all add: format_prompt_def prompt_agente_produtos_assign3_def
        prompt_agente_produtos_assign1_def)
  have "ebind (format_prompt prompt_agente_produtos_assign3
                [(''question'', pergunta), (''context'', ''produtos'')])
         (\<lambda>text. Inr [(''respostas'', PList [PStr text])]) \<noteq>
       ebind (format_prompt prompt_agente_produtos_assign1
                [(''question'', pergunta), (''context'', ''produtos'')])
         (\<lambda>text. Inr [(''respostas'', PList [PStr text])])"
    using neq ok by auto
  moreover have
    "resolve notebook_globals ''prompt_agente_processos'' =
       Inl (NameError ''prompt_agente_processos'')"
    "resolve notebook_globals ''prompt_agente_rh'' = Inl (NameError ''prompt_agente_rh'')"
    by (simp_all add: resolve_def notebook_globals_def)
  ultimately show ?thesis
    using run resolve_prompt_agente_produtos by simp
qed

subsection \<open>C2: a model answer of the wrong shape\<close>

text \<open>
  C2 says that every model answer that is not a JSON object with a list under
  \<^verbatim>\<open>"dominios"\<close> gives an empty route list and no exception. The router catches
  \<^verbatim>\<open>JSONDecodeError\<close> only. An answer that is valid JSON of another shape is printed and
  then subscripted: a bare list raises \<^verbatim>\<open>TypeError\<close>, an object without the key raises
  \<^verbatim>\<open>KeyError\<close>, and no routes are returned.
\<close>

theorem router_raises_on_wrong_shape:
  "router notebook_globals (stub_env content_bare_list known_parses) (estado_inicial q) =
     ([PList [PStr ''produtos'', PStr ''processos'']], Inl TypeError)
   \<and> router notebook_globals (stub_env content_other_key known_parses) (estado_inicial q) =
     ([PDict [(''domains'', PList [PStr ''rh''])]], Inl (KeyError ''dominios''))"
  by (simp add: router_stub contents_defs)

subsection \<open>C3: identifiers outside the closed set\<close>

text \<open>
  C3 says that the router drops identifiers outside the set of produtos, processos and
  rh, so that its routes are always within that set. It does not hold: for the model
  answer \<^verbatim>\<open>{"dominios": ["financeiro", "rh"]}\<close> the router returns both identifiers.
\<close>

theorem router_returns_unknown_domain:
  "snd (router notebook_globals (stub_env content_financeiro known_parses)
          (estado_inicial pergunta))
     = Inr [(''routes'', PList [PStr ''financeiro'', PStr ''rh''])]
   \<and> \<not> set (route_ids (PList [PStr ''financeiro'', PStr ''rh''])) \<subseteq> set domains"
  by (simp add: router_stub contents_defs domains_def path_map_def)

text \<open>
  C3 as amended: when the model's answer parses to an object with the key
  \<^verbatim>\<open>"dominios"\<close>, the router prints the object and returns the value under that key
  unchanged as \<^verbatim>\<open>routes\<close>, whatever identifiers it holds; the closed set is the set of
  keys of the conditional edges, produtos, processos and rh.
\<close>

theorem router_returns_dominios_unfiltered:
  assumes "question state = Some q"
    and "ebind (format_prompt prompt_orquestrador [(''question'', q)])
           (llm_invoke e ''llama3-70b-8192'') = Inr content"
    and "json_loads e content = Inr (PDict kv)"
    and "map_of kv ''dominios'' = Some v"
  shows "router notebook_globals e state = ([PDict kv], Inr [(''routes'', v)])
    \<and> set domains = {''produtos'', ''processos'', ''rh''}"
  by (simp add: router_after_model [OF assms(1,2)] assms(3,4) domains_def path_map_def)

text \<open>The amended C3 at the answer \<^verbatim>\<open>{"dominios": ["financeiro", "rh"]}\<close>.\<close>

theorem router_returns_dominios_unfiltered_witness:
  "question (estado_inicial pergunta) = Some pergunta
   \<and> ebind (format_prompt prompt_orquestrador [(''question'', pergunta)])
       (llm_invoke (stub_env content_financeiro known_parses) ''llama3-70b-8192'') =
       Inr content_financeiro
   \<and> json_loads (stub_env content_financeiro known_parses) content_financeiro =
       Inr (PDict [(''dominios'', PList [PStr ''financeiro'', PStr ''rh''])])
   \<and> map_of [(''dominios'', PList [PStr ''financeiro'', PStr ''rh''])] ''dominios'' =
       Some (PList [PStr ''financeiro'', PStr ''rh''])
   \<and> router notebook_globals (stub_env content_financeiro known_parses)
        (estado_inicial pergunta) =
       ([PDict [(''dominios'', PList [PStr ''financeiro'', PStr ''rh''])]],
        Inr [(''routes'', PList [PStr ''financeiro'', PStr ''rh''])])"
proof -
  have q: "question (estado_inicial pergunta) = Some pergunta"
    by (simp add: estado_inicial_def)
  have j: "json_loads (stub_env content_financeiro known_parses) content_financeiro =
       Inr (PDict [(''dominios'', PList [PStr ''financeiro'', PStr ''rh''])])"
    by (simp add: stub_env_def contents_defs)
  have m: "map_of [(''dominios'', PList [PStr ''financeiro'', PStr ''rh''])] ''dominios'' =
       Some (PList [PStr ''financeiro'', PStr ''rh''])"
    by simp
  show ?thesis
    using router_returns_dominios_unfiltered [OF q stub_model_answer j m] q j
      stub_model_answer [of pergunta content_financeiro known_parses]
    by simp
qed

subsection \<open>C4: one answer per routed domain\<close>

text \<open>
  C4 says that for a classification into the domain set D the specialists of D run
  and leave exactly |D| entries in \<^verbatim>\<open>respostas\<close>. For the model answer
  \<^verbatim>\<open>{"dominios": ["rh"]}\<close> the router returns the routes \<^verbatim>\<open>["rh"]\<close>, the selector of the
  conditional edges reads them, \<^verbatim>\<open>rh\<close> maps to the node \<^verbatim>\<open>rh\<close>, and the function
  registered under that name raises \<^verbatim>\<open>NameError\<close> on every state: it returns no
  \<^verbatim>\<open>respostas\<close>, so no entry is added where one is expected.
\<close>

theorem routed_specialist_appends_nothing:
  "snd (router notebook_globals (stub_env content_rh known_parses) (estado_inicial pergunta)) =
     Inr [(''routes'', PList [PStr ''rh''])]
   \<and> route_selector [(''routes'', PList [PStr ''rh''])] = Inr (PList [PStr ''rh''])
   \<and> map_of path_map ''rh'' = Some ''rh''
   \<and> map_option (\<lambda>node. node notebook_globals e state) (map_of graph_nodes ''rh'') =
       Some (Inl (NameError ''get_retriever''))"
  by (simp add: router_stub contents_defs route_selector_def path_map_def graph_nodes_def
      agente_rh_NameError)

subsection \<open>C5: a run with no routed domain\<close>

text \<open>
  C5 says that in every run with an empty route set the combiner still executes and
  produces a non-empty final answer with a "not found" indication, rather than the run
  failing. It does not hold: for a model answer that is not JSON the router falls back
  to an empty route list, the conditional edges start no node and no edge leads from
  \<^verbatim>\<open>router\<close> to \<^verbatim>\<open>combina\<close>, so the run of the notebook's initial state ends after the
  router; \<^verbatim>\<open>combina\<close> is not among the nodes started and \<^verbatim>\<open>answer\<close> is still the empty
  string.
\<close>

theorem run_with_no_route_leaves_answer_empty:
  "run_graph notebook_globals (stub_env content_prose known_parses) (estado_inicial pergunta) =
     Some ([''router''], Inr (estado_inicial pergunta))
   \<and> ''combina'' \<notin> set [''router'']
   \<and> answer (estado_inicial pergunta) = Some ''''"
proof -
  have "snd (router notebook_globals (stub_env content_prose known_parses)
      (estado_inicial pergunta)) = Inr [(''routes'', PList [])]"
    by (simp add: router_fallback_on_prose)
  then have "run_graph notebook_globals (stub_env content_prose known_parses)
      (estado_inicial pergunta) = Some ([''router''], Inr (estado_inicial pergunta))"
    by (simp add: run_graph_after_router route_selector_def routes_not_declared)
  then show ?thesis
    by (simp add: estado_inicial_def)
qed

text \<open>
  C5 as amended: in every run in which the router returns an empty route list the run
  does not fail, but the combiner does not execute: \<^verbatim>\<open>router\<close> is the only node started
  and the run ends with the state it was given, so \<^verbatim>\<open>answer\<close> keeps its initial value.
\<close>

theorem run_with_no_route_skips_combina:
  assumes "snd (router ns e state) = Inr [(''routes'', PList [])]"
  shows "run_graph ns e state = Some ([''router''], Inr state)"
  by (simp add: run_graph_after_router [OF assms] route_selector_def routes_not_declared)

text \<open>The amended C5 at the notebook's question and the model answer \<^verbatim>\<open>{"dominios": []}\<close>.\<close>

theorem run_with_no_route_skips_combina_witness:
  "snd (router notebook_globals (stub_env content_none parses_none) (estado_inicial pergunta)) =
     Inr [(''routes'', PList [])]
   \<and> run_graph notebook_globals (stub_env content_none parses_none) (estado_inicial pergunta) =
       Some ([''router''], Inr (estado_inicial pergunta))"
proof -
  have r: "snd (router notebook_globals (stub_env content_none parses_none)
      (estado_inicial pergunta)) = Inr [(''routes'', PList [])]"
    by (simp add: router_stub parses_none_def)
  show ?thesis
    using run_with_no_route_skips_combina [OF r] r by simp
qed

subsection \<open>C6: the combiner after the specialists\<close>

text \<open>
  C6 says that in every run \<^verbatim>\<open>combina\<close> runs exactly once, after the routed specialists
  have written their entries, and that the graph ends once \<^verbatim>\<open>combina\<close> has set the final
  answer. The edges into \<^verbatim>\<open>combina\<close> come from the three specialist nodes and from
  nowhere else, and the function registered under each of these names raises
  \<^verbatim>\<open>NameError\<close> on every state: no specialist completes, so a run that routes to any
  domain ends in that exception before \<^verbatim>\<open>combina\<close>.
\<close>

theorem combina_preceded_by_failing_specialists:
  "map fst (filter (\<lambda>edge. snd edge = ''combina'') graph_edges) =
     [''produtos'', ''processos'', ''rh'']
   \<and> map_option (\<lambda>node. node notebook_globals e state) (map_of graph_nodes ''produtos'') =
       Some (Inl (NameError ''get_retriever''))
   \<and> map_option (\<lambda>node. node notebook_globals e state) (map_of graph_nodes ''processos'') =
       Some (Inl (NameError ''get_retriever''))
   \<and> map_option (\<lambda>node. node notebook_globals e state) (map_of graph_nodes ''rh'') =
       Some (Inl (NameError ''get_retriever''))"
  by (simp add: graph_edges_def START_def END_def graph_nodes_def agente_produtos_NameError
      agente_processos_NameError agente_rh_NameError)

subsection \<open>C7: the steps of a specialist\<close>

text \<open>
  C7 says that the specialist of a routed domain searches that domain's own retriever
  with k = 3, joins the passages, renders the prompt, invokes the model and appends its
  text. At the notebook's question the rh specialist raises \<^verbatim>\<open>NameError\<close> on its first
  line, although the services would answer; the retriever of the domain, with k = 3, is
  bound to \<^verbatim>\<open>retriever_rh\<close>, a name the specialist does not use.
\<close>

theorem agente_rh_never_retrieves:
  "agente_rh notebook_globals (stub_env content_prose []) (estado_inicial pergunta) =
     Inl (NameError ''get_retriever'')
   \<and> resolve notebook_globals ''retriever_rh'' =
       Inr (RetrieverObj \<lparr>r_persist_directory = ''vectorstores/recursos_humanos'',
                          r_collection_name = ''recursos_humanos'', r_k = 3\<rparr>)"
proof -
  have "resolve notebook_globals ''retriever_rh'' =
       Inr (RetrieverObj \<lparr>r_persist_directory = ''vectorstores/recursos_humanos'',
                          r_collection_name = ''recursos_humanos'', r_k = 3\<rparr>)"
    by (simp add: resolve_def notebook_globals_def retriever_rh_def get_retriever_def
        rh_manager_def)
  then show ?thesis
    by (simp only: agente_rh_NameError simp_thms)
qed

subsection \<open>C9: the unbound name in every specialist\<close>

text \<open>
  C9: on every state and with any services, each of the three specialists raises
  \<^verbatim>\<open>NameError\<close> for \<^verbatim>\<open>get_retriever\<close>. The name has no binding in the module namespace;
  it is a method of the class \<^verbatim>\<open>VectorStoreManager\<close>.
\<close>

theorem specialists_raise_NameError:
  "agente_processos notebook_globals e1 s1 = Inl (NameError ''get_retriever'')
   \<and> agente_produtos notebook_globals e2 s2 = Inl (NameError ''get_retriever'')
   \<and> agente_rh notebook_globals e3 s3 = Inl (NameError ''get_retriever'')
   \<and> map_of notebook_globals ''get_retriever'' = None
   \<and> resolve notebook_globals ''VectorStoreManager'' = Inr (ClassObj VectorStoreManager_methods)
   \<and> ''get_retriever'' \<in> set VectorStoreManager_methods"
proof -
  have "map_of notebook_globals ''get_retriever'' = None"
    by (simp add: notebook_globals_def)
  moreover have
    "resolve notebook_globals ''VectorStoreManager'' = Inr (ClassObj VectorStoreManager_methods)"
    by (simp add: resolve_def notebook_globals_def)
  moreover have "''get_retriever'' \<in> set VectorStoreManager_methods"
    by (simp add: VectorStoreManager_methods_def)
  ultimately show ?thesis
    by (simp add: agente_processos_NameError agente_produtos_NameError agente_rh_NameError)
qed

subsection \<open>C10: the key written by the router\<close>

text \<open>
  C10: \<^verbatim>\<open>GraphState\<close> declares the fields question, respostas and answer. Whenever the
  router returns, its update has the single key \<^verbatim>\<open>routes\<close>, which is none of the declared
  fields, and the selector of the conditional edges reads the value under that key.
\<close>

theorem router_writes_undeclared_key:
  assumes "router ns e state = (out, Inr upd)"
  shows "GraphState_fields = [''question'', ''respostas'', ''answer'']
    \<and> map fst upd = [''routes'']
    \<and> ''routes'' \<notin> set GraphState_fields
    \<and> (\<exists>v. upd = [(''routes'', v)] \<and> route_selector upd = Inr v)"
proof -
  from assms obtain areas d where
    "getitem areas ''dominios'' = Inr d" and "upd = [(''routes'', d)]"
    by (auto simp: router_def ebind_def split: sum.splits if_splits)
  then show ?thesis
    by (simp add: GraphState_fields_def route_selector_def)
qed

text \<open>C10 at the notebook's question and the model answer \<^verbatim>\<open>{"dominios": ["rh"]}\<close>.\<close>

theorem router_writes_undeclared_key_witness:
  "router notebook_globals (stub_env content_rh known_parses) (estado_inicial pergunta) =
     ([PDict [(''dominios'', PList [PStr ''rh''])]], Inr [(''routes'', PList [PStr ''rh''])])
   \<and> GraphState_fields = [''question'', ''respostas'', ''answer'']
   \<and> map fst [(''routes'', PList [PStr ''rh''])] = [''routes'']
   \<and> ''routes'' \<notin> set GraphState_fields
   \<and> (\<exists>v. [(''routes'', PList [PStr ''rh''])] = [(''routes'', v)]
         \<and> route_selector [(''routes'', PList [PStr ''rh''])] = Inr v)"
proof -
  have r: "router notebook_globals (stub_env content_rh known_parses) (estado_inicial pergunta) =
     ([PDict [(''dominios'', PList [PStr ''rh''])]], Inr [(''routes'', PList [PStr ''rh''])])"
    by (simp add: router_stub contents_defs)
  show ?thesis
    using router_writes_undeclared_key [OF r] r by simp
qed

end
